theory Spec2Isabelle
  imports Main
begin

section \<open>A multi-tenant REST service: data model\<close>

text \<open>
  The program is \<^verbatim>\<open>restService.go\<close>: an HTTP service that reads a bearer token, takes
  the tenant name from its claims, opens a database transaction, creates and selects
  the tenant's schema, migrates it, runs one of five handlers and commits or rolls back.

  The Go structs are records. \<^verbatim>\<open>Person.ID\<close> is a Go \<^verbatim>\<open>int\<close> (64 bits); no arithmetic
  is done on it, so it is an \<open>int\<close> here and the 64-bit range appears where a value is
  produced (\<open>Atoi\<close>). The standard claims embedded in \<^verbatim>\<open>ServiceClaims\<close> are never read by
  the program and are left out. An absent \<^verbatim>\<open>tenant\<close> claim decodes to Go's zero value,
  the empty string.
\<close>

record Person =
  ID :: int
  Name :: string

record ServiceClaims =
  UserName :: string
  Tenant :: string

record Token =
  Claims :: ServiceClaims
  Valid :: bool

definition jwtKey :: string where
  "jwtKey = ''c0e18b6a-a204-4197-93f4-c11f6cd5bad8''"

text \<open>
  Errors as values. \<open>NumError s\<close> is the \<^verbatim>\<open>*strconv.NumError\<close> that \<^verbatim>\<open>strconv.Atoi\<close>
  returns for the input \<open>s\<close> (syntax and range errors are not told apart: the program
  only passes the value on). \<open>WriteError\<close> is the error of \<^verbatim>\<open>Encoder.Encode\<close> when the
  write to the connection fails.
\<close>

datatype error = NumError string | WriteError

type_synonym jwt_error = string

text \<open>
  \<^verbatim>\<open>jwt.ParseWithClaims\<close> is a library function doing the cryptographic work; it is a
  parameter of the model: from the token string and the key it gives the text of an
  error, or a token.
\<close>

type_synonym jwt_parser = "string \<Rightarrow> string \<Rightarrow> jwt_error + Token"

subsection \<open>Requests\<close>

text \<open>
  A request carries its header map, the path variables that the router extracted
  (\<^verbatim>\<open>mux.Vars\<close>) and a body. The body is represented by what \<^verbatim>\<open>json.Decoder.Decode\<close>
  can take from it for a \<^verbatim>\<open>Person\<close>: nothing (absent or malformed body), or an object
  whose \<^verbatim>\<open>id\<close> and \<^verbatim>\<open>name\<close> members are each present and well typed, or not.
\<close>

datatype payload = No_Object | Object "int option" "string option"

record Request =
  Header :: "string \<rightharpoonup> string"
  Vars :: "string \<rightharpoonup> string"
  Body :: payload

text \<open>\<^verbatim>\<open>r.Header.Get(k)\<close> and \<^verbatim>\<open>params[k]\<close>: the empty string when the key is absent.\<close>

definition Header_Get :: "Request \<Rightarrow> string \<Rightarrow> string" where
  "Header_Get r k = (case Header r k of None \<Rightarrow> [] | Some v \<Rightarrow> v)"

definition Vars_get :: "Request \<Rightarrow> string \<Rightarrow> string" where
  "Vars_get r k = (case Vars r k of None \<Rightarrow> [] | Some v \<Rightarrow> v)"

text \<open>
  \<^verbatim>\<open>_ = json.NewDecoder(r.Body).Decode(&person)\<close>: the members found overwrite the
  fields, everything else keeps its value, and the error is dropped.
\<close>

definition Decode :: "payload \<Rightarrow> Person \<Rightarrow> Person" where
  "Decode b person =
     (case b of
        No_Object \<Rightarrow> person
      | Object i n \<Rightarrow>
          person\<lparr>ID := (case i of None \<Rightarrow> ID person | Some v \<Rightarrow> v),
                 Name := (case n of None \<Rightarrow> Name person | Some s \<Rightarrow> s)\<rparr>)"

definition zero_Person :: Person where
  "zero_Person = \<lparr>ID = 0, Name = []\<rparr>"

subsection \<open>Responses\<close>

text \<open>
  The response writer: the header map, the status code once the header has been
  written, and the body written so far. The body is a list of pieces: a text, or the
  JSON encoding of a person or of a list of people (the encoding itself is the
  library's). \<open>writable\<close> says whether a write to the connection succeeds.
\<close>

datatype chunk = Text string | Json_Person Person | Json_People "Person list"

record ResponseWriter =
  wheader :: "(string \<times> string) list"
  status :: "nat option"
  wbody :: "chunk list"
  writable :: bool

definition Header_Add :: "string \<Rightarrow> string \<Rightarrow> ResponseWriter \<Rightarrow> ResponseWriter" where
  "Header_Add k v w = w\<lparr>wheader := wheader w @ [(k, v)]\<rparr>"

definition Header_Set :: "string \<Rightarrow> string \<Rightarrow> ResponseWriter \<Rightarrow> ResponseWriter" where
  "Header_Set k v w = w\<lparr>wheader := filter (\<lambda>p. fst p \<noteq> k) (wheader w) @ [(k, v)]\<rparr>"

text \<open>\<^verbatim>\<open>WriteHeader\<close> sets the status once; a later call changes nothing.\<close>

definition WriteHeader :: "nat \<Rightarrow> ResponseWriter \<Rightarrow> ResponseWriter" where
  "WriteHeader code w = (if status w = None then w\<lparr>status := Some code\<rparr> else w)"

text \<open>\<^verbatim>\<open>Write\<close> sends the header with status 200 if none was sent, then the data.\<close>

definition Write :: "chunk \<Rightarrow> ResponseWriter \<Rightarrow> ResponseWriter \<times> error option" where
  "Write c w =
     (let w1 = WriteHeader 200 w
      in if writable w1 then (w1\<lparr>wbody := wbody w1 @ [c]\<rparr>, None) else (w1, Some WriteError))"

text \<open>\<^verbatim>\<open>json.NewEncoder(w).Encode(v)\<close>: one write of the encoded value.\<close>

definition Encode :: "chunk \<Rightarrow> ResponseWriter \<Rightarrow> ResponseWriter \<times> error option" where
  "Encode v w = Write v w"

text \<open>
  \<^verbatim>\<open>http.Error(w, msg, code)\<close>: plain-text headers, the status, the message and a
  newline.
\<close>

definition http_Error :: "ResponseWriter \<Rightarrow> string \<Rightarrow> nat \<Rightarrow> ResponseWriter" where
  "http_Error w msg code =
     (let w = Header_Set ''Content-Type'' ''text/plain; charset=utf-8'' w;
          w = Header_Set ''X-Content-Type-Options'' ''nosniff'' w;
          w = WriteHeader code w
      in fst (Write (Text (msg @ [CHR 0x0A])) w))"

section \<open>Library functions on strings\<close>

text \<open>
  \<^verbatim>\<open>strings.SplitN(s, " ", 2)\<close>: the text before the first space and the text after it,
  or the whole string alone when it has no space.
\<close>

definition SplitN_2 :: "string \<Rightarrow> string list" where
  "SplitN_2 s =
     (case dropWhile (\<lambda>c. c \<noteq> CHR '' '') s of
        [] \<Rightarrow> [s]
      | _ # rest \<Rightarrow> [takeWhile (\<lambda>c. c \<noteq> CHR '' '') s, rest])"

text \<open>
  \<^verbatim>\<open>strconv.Atoi\<close>: an optional sign, then one or more decimal digits, the value within
  the 64-bit range of \<^verbatim>\<open>int\<close>. A byte is a digit when, after taking the code of
  \<^verbatim>\<open>'0'\<close> (48) from it, it is at most 9.
\<close>

definition digit_val :: "char \<Rightarrow> nat option" where
  "digit_val ch =
     (let n = (of_char ch :: nat)
      in if 48 \<le> n \<and> n - 48 \<le> 9 then Some (n - 48) else None)"

fun digits_val :: "nat \<Rightarrow> string \<Rightarrow> nat option" where
  "digits_val n [] = Some n"
| "digits_val n (c # cs) =
     (case digit_val c of None \<Rightarrow> None | Some d \<Rightarrow> digits_val (n * 10 + d) cs)"

definition Atoi :: "string \<Rightarrow> error + int" where
  "Atoi s =
     (let neg = (s \<noteq> [] \<and> hd s = CHR ''-'');
          ds = (if s \<noteq> [] \<and> (hd s = CHR ''-'' \<or> hd s = CHR ''+'') then tl s else s)
      in if ds = [] then Inl (NumError s)
         else case digits_val 0 ds of
                None \<Rightarrow> Inl (NumError s)
              | Some n \<Rightarrow>
                  (let v = (if neg then - int n else int n)
                   in if - (2 ^ 63) \<le> v \<and> v < 2 ^ 63 then Inr v else Inl (NumError s)))"

section \<open>The authorization header\<close>

definition isValidAuthorizationHeader :: "string \<Rightarrow> bool" where
  "isValidAuthorizationHeader authorizationHeader =
     (if authorizationHeader = [] then False
      else (let auth = SplitN_2 authorizationHeader
            in if length auth = 2 then auth ! 0 = ''Bearer'' \<and> auth ! 1 \<noteq> [] else False))"

section \<open>The storage backend\<close>

text \<open>
  The database (PostgreSQL, reached through gorm) is not part of the program. The model
  keeps what the program relies on: named schemas, each holding at most one table of
  people, and transactions that see a working copy of the persisted state.

  What is specific to the backend is a parameter:
  \<^item> \<open>ident\<close> is how the backend reads the text that the program puts where an SQL
    statement expects a schema name: \<open>None\<close> when the statement is rejected, otherwise
    the name of the schema the statement is about;
  \<^item> the table type \<open>'t\<close> and the row operations behind gorm's \<^verbatim>\<open>Find\<close>, \<^verbatim>\<open>Where\<close>,
    \<^verbatim>\<open>Create\<close>, \<^verbatim>\<open>Delete\<close> and \<^verbatim>\<open>Save\<close> (\<open>None\<close> when the statement fails).

  Two limits of the model. Transactions run one after the other: requests served at
  the same time are not modelled. And a statement is about one schema or is rejected:
  a text that a database would read as more than one name (a list of schemas, further
  statements after a semicolon) has no faithful \<open>ident\<close>.
\<close>

record 't backend =
  ident :: "string \<Rightarrow> string option"
  empty_table :: 't
  select_all :: "'t \<Rightarrow> Person list"
  select_id :: "int \<Rightarrow> 't \<Rightarrow> Person option"
  insert_row :: "Person \<Rightarrow> 't \<Rightarrow> 't option"
  delete_row :: "Person \<Rightarrow> 't \<Rightarrow> 't option"
  save_row :: "Person \<Rightarrow> 't \<Rightarrow> 't option"

text \<open>
  A store maps a schema name to its table: \<open>None\<close> when the schema does not exist,
  \<open>Some None\<close> when it exists without the table, \<open>Some (Some t)\<close> with the table.
\<close>

type_synonym 't store = "string \<rightharpoonup> 't option"

text \<open>The calls that the program makes on a gorm handle, as they are logged.\<close>

datatype call =
    CBegin
  | CExec string
  | CAutoMigrate
  | CFind
  | CWhere_Find int
  | CCreate Person
  | CDelete Person
  | CSave Person
  | CCommit
  | CRollback

text \<open>
  \<open>'t pool\<close> is the global \<^verbatim>\<open>dbPool\<close>: the persisted state and every call made so far.
  \<open>'t DB\<close> is the handle of an open transaction (\<^verbatim>\<open>db := dbPool.Begin()\<close>): its working
  copy, the schema selected by the search path, whether a statement has failed (the
  backend then refuses every further statement of the transaction and commits
  nothing), and the calls made on it.
\<close>

record 't pool =
  persisted :: "'t store"
  calls :: "call list"

record 't DB =
  working :: "'t store"
  search_path :: "string option"
  aborted :: bool
  issued :: "call list"

definition Begin :: "'t pool \<Rightarrow> 't DB" where
  "Begin dbPool =
     \<lparr>working = persisted dbPool, search_path = None, aborted = False, issued = [CBegin]\<rparr>"

definition Commit :: "'t DB \<Rightarrow> 't pool \<Rightarrow> 't pool" where
  "Commit db dbPool =
     \<lparr>persisted = (if aborted db then persisted dbPool else working db),
      calls = calls dbPool @ issued db @ [CCommit]\<rparr>"

definition Rollback :: "'t DB \<Rightarrow> 't pool \<Rightarrow> 't pool" where
  "Rollback db dbPool =
     \<lparr>persisted = persisted dbPool, calls = calls dbPool @ issued db @ [CRollback]\<rparr>"

text \<open>The calls that end a transaction.\<close>

definition terminal :: "call \<Rightarrow> bool" where
  "terminal c = (c = CCommit \<or> c = CRollback)"

subsection \<open>Statements sent as text\<close>

fun strip_prefix :: "string \<Rightarrow> string \<Rightarrow> string option" where
  "strip_prefix [] s = Some s"
| "strip_prefix (c # p) [] = None"
| "strip_prefix (c # p) (d # s) = (if c = d then strip_prefix p s else None)"

datatype statement = Create_Schema string | Set_Search_Path string

text \<open>
  The two statement forms that the program sends with \<^verbatim>\<open>db.Exec\<close>. Whatever follows the
  fixed words is read by the backend's \<open>ident\<close>.
\<close>

definition read_statement :: "'t backend \<Rightarrow> string \<Rightarrow> statement option" where
  "read_statement B sql =
     (case strip_prefix ''create schema if not exists '' sql of
        Some x \<Rightarrow> map_option Create_Schema (ident B x)
      | None \<Rightarrow>
          (case strip_prefix ''set search_path to '' sql of
             Some x \<Rightarrow> map_option Set_Search_Path (ident B x)
           | None \<Rightarrow> None))"

definition Exec :: "'t backend \<Rightarrow> string \<Rightarrow> 't DB \<Rightarrow> 't DB" where
  "Exec B sql db =
     (let db1 = db\<lparr>issued := issued db @ [CExec sql]\<rparr>
      in if aborted db then db1
         else case read_statement B sql of
                None \<Rightarrow> db1\<lparr>aborted := True\<rparr>
              | Some (Create_Schema n) \<Rightarrow>
                  (if working db n = None then db1\<lparr>working := (working db)(n \<mapsto> None)\<rparr>
                   else db1)
              | Some (Set_Search_Path n) \<Rightarrow> db1\<lparr>search_path := Some n\<rparr>)"

subsection \<open>The gorm calls\<close>

text \<open>
  \<^verbatim>\<open>db.AutoMigrate(&Person{})\<close> creates the table in the selected schema when it is not
  there and leaves an existing table alone; it fails when no schema is selected or the
  selected schema does not exist.
\<close>

definition AutoMigrate :: "'t backend \<Rightarrow> 't DB \<Rightarrow> 't DB" where
  "AutoMigrate B db =
     (let db1 = db\<lparr>issued := issued db @ [CAutoMigrate]\<rparr>
      in if aborted db then db1
         else case search_path db of
                None \<Rightarrow> db1\<lparr>aborted := True\<rparr>
              | Some n \<Rightarrow>
                  (case working db n of
                     None \<Rightarrow> db1\<lparr>aborted := True\<rparr>
                   | Some None \<Rightarrow> db1\<lparr>working := (working db)(n \<mapsto> Some (empty_table B))\<rparr>
                   | Some (Some t) \<Rightarrow> db1))"

text \<open>The table that unqualified statements of the transaction resolve to.\<close>

definition current_table :: "'t DB \<Rightarrow> 't option" where
  "current_table db =
     (case search_path db of
        None \<Rightarrow> None
      | Some n \<Rightarrow> (case working db n of Some (Some t) \<Rightarrow> Some t | _ \<Rightarrow> None))"

definition set_table :: "'t \<Rightarrow> 't DB \<Rightarrow> 't DB" where
  "set_table t db =
     (case search_path db of
        None \<Rightarrow> db
      | Some n \<Rightarrow> db\<lparr>working := (working db)(n \<mapsto> Some t)\<rparr>)"

text \<open>
  \<^verbatim>\<open>db.Find(&people)\<close>: all rows; on an error the slice stays empty (the program never
  looks at the error of a gorm call).
\<close>

definition Find :: "'t backend \<Rightarrow> 't DB \<Rightarrow> Person list \<times> 't DB" where
  "Find B db =
     (let db1 = db\<lparr>issued := issued db @ [CFind]\<rparr>
      in if aborted db then ([], db1)
         else case current_table db of
                None \<Rightarrow> ([], db1\<lparr>aborted := True\<rparr>)
              | Some t \<Rightarrow> (select_all B t, db1))"

text \<open>
  \<^verbatim>\<open>db.Where("id = ?", id).Find(&person)\<close>: the row with that id; when there is none
  (or on an error) \<open>person\<close> keeps its value.
\<close>

definition Where_Find :: "'t backend \<Rightarrow> int \<Rightarrow> Person \<Rightarrow> 't DB \<Rightarrow> Person \<times> 't DB" where
  "Where_Find B id' person db =
     (let db1 = db\<lparr>issued := issued db @ [CWhere_Find id']\<rparr>
      in if aborted db then (person, db1)
         else case current_table db of
                None \<Rightarrow> (person, db1\<lparr>aborted := True\<rparr>)
              | Some t \<Rightarrow>
                  (case select_id B id' t of None \<Rightarrow> (person, db1) | Some p \<Rightarrow> (p, db1)))"

text \<open>A statement that changes the current table, logged as the call \<open>c\<close>.\<close>

definition change :: "call \<Rightarrow> ('t \<Rightarrow> 't option) \<Rightarrow> 't DB \<Rightarrow> 't DB" where
  "change c f db =
     (let db1 = db\<lparr>issued := issued db @ [c]\<rparr>
      in if aborted db then db1
         else case current_table db of
                None \<Rightarrow> db1\<lparr>aborted := True\<rparr>
              | Some t \<Rightarrow>
                  (case f t of None \<Rightarrow> db1\<lparr>aborted := True\<rparr> | Some t' \<Rightarrow> set_table t' db1))"

definition Create :: "'t backend \<Rightarrow> Person \<Rightarrow> 't DB \<Rightarrow> 't DB" where
  "Create B person db = change (CCreate person) (insert_row B person) db"

definition Delete :: "'t backend \<Rightarrow> Person \<Rightarrow> 't DB \<Rightarrow> 't DB" where
  "Delete B person db = change (CDelete person) (delete_row B person) db"

definition Save :: "'t backend \<Rightarrow> Person \<Rightarrow> 't DB \<Rightarrow> 't DB" where
  "Save B person db = change (CSave person) (save_row B person) db"

section \<open>The program\<close>

text \<open>
  \<^verbatim>\<open>type handler func(w http.ResponseWriter, r *http.Request, db *gorm.DB) error\<close>: the
  writer and the handle are mutated in place, so the model returns them with the error.
  The calls to \<^verbatim>\<open>log.Printf\<close> are left out.
\<close>

type_synonym 't handler =
  "ResponseWriter \<Rightarrow> Request \<Rightarrow> 't DB \<Rightarrow> error option \<times> ResponseWriter \<times> 't DB"

subsection \<open>prepare\<close>

definition prepare ::
  "'t backend \<Rightarrow> 't handler \<Rightarrow> ResponseWriter \<Rightarrow> Request \<Rightarrow> string \<Rightarrow> 't pool
     \<Rightarrow> ResponseWriter \<times> 't pool" where
  "prepare B serviceHandler w r tenant dbPool =
     (let db = Begin dbPool;
          db = Exec B (''create schema if not exists '' @ tenant) db;
          db = Exec B (''set search_path to '' @ tenant) db;
          db = AutoMigrate B db;
          (err, w, db) = serviceHandler w r db
      in if err = None then (w, Commit db dbPool) else (w, Rollback db dbPool))"

text \<open>
  The three provisioning calls of \<open>prepare\<close> (lines 84 to 91 of the source) as a
  function of the handle they run on, and the handle that \<open>prepare\<close> gives to the
  handler.
\<close>

definition provision :: "'t backend \<Rightarrow> string \<Rightarrow> 't DB \<Rightarrow> 't DB" where
  "provision B tenant db =
     AutoMigrate B
       (Exec B (''set search_path to '' @ tenant)
          (Exec B (''create schema if not exists '' @ tenant) db))"

definition provisioned :: "'t backend \<Rightarrow> string \<Rightarrow> 't pool \<Rightarrow> 't DB" where
  "provisioned B tenant dbPool = provision B tenant (Begin dbPool)"

subsection \<open>authorize\<close>

definition authorize ::
  "'t backend \<Rightarrow> jwt_parser \<Rightarrow> 't handler \<Rightarrow> ResponseWriter \<Rightarrow> Request \<Rightarrow> 't pool
     \<Rightarrow> ResponseWriter \<times> 't pool" where
  "authorize B ParseWithClaims serviceHandler w r dbPool =
     (let authorizationHeader = Header_Get r ''Authorization''
      in if isValidAuthorizationHeader authorizationHeader then
           (let tokenString = SplitN_2 authorizationHeader ! 1
            in case ParseWithClaims tokenString jwtKey of
                 Inl err \<Rightarrow> (http_Error w (''Token is not valid: '' @ err) 401, dbPool)
               | Inr token \<Rightarrow>
                   (let claims = Claims token
                    in if Valid token then prepare B serviceHandler w r (Tenant claims) dbPool
                       else (http_Error w ''Token is not valid or is expired'' 401, dbPool)))
         else
           (http_Error w (''Invalid authorization header: '' @ authorizationHeader) 401,
            dbPool))"

subsection \<open>The handlers\<close>

definition ListPeople :: "'t backend \<Rightarrow> 't handler" where
  "ListPeople B w r db =
     (let (people, db) = Find B db;
          w = Header_Add ''Content-Type'' ''application/json'' w;
          (w, _) = Encode (Json_People people) w
      in (None, w, db))"

definition GetPerson :: "'t backend \<Rightarrow> 't handler" where
  "GetPerson B w r db =
     (let person = zero_Person
      in case Atoi (Vars_get r ''id'') of
           Inl err \<Rightarrow> (Some err, w, db)
         | Inr id' \<Rightarrow>
             (let (person, db) = Where_Find B id' person db;
                  w = Header_Add ''Content-Type'' ''application/json'' w;
                  (w, err) = Encode (Json_Person person) w
              in (err, w, db)))"

definition CreatePerson :: "'t backend \<Rightarrow> 't handler" where
  "CreatePerson B w r db =
     (let person = Decode (Body r) zero_Person
      in case Atoi (Vars_get r ''id'') of
           Inl err \<Rightarrow> (Some err, w, db)
         | Inr id' \<Rightarrow>
             (let person = person\<lparr>ID := id'\<rparr>;
                  db = Create B person db;
                  (personList, db) = Find B db;
                  w = Header_Add ''Content-Type'' ''application/json'' w;
                  (w, err) = Encode (Json_People personList) w
              in (err, w, db)))"

definition DeletePerson :: "'t backend \<Rightarrow> 't handler" where
  "DeletePerson B w r db =
     (let person = zero_Person
      in case Atoi (Vars_get r ''id'') of
           Inl err \<Rightarrow> (Some err, w, db)
         | Inr id' \<Rightarrow>
             (let person = person\<lparr>ID := id'\<rparr>;
                  db = Delete B person db;
                  (personList, db) = Find B db;
                  w = Header_Add ''Content-Type'' ''application/json'' w;
                  (w, err) = Encode (Json_People personList) w
              in (err, w, db)))"

definition UpdatePerson :: "'t backend \<Rightarrow> 't handler" where
  "UpdatePerson B w r db =
     (let person = Decode (Body r) zero_Person
      in case Atoi (Vars_get r ''id'') of
           Inl err \<Rightarrow> (Some err, w, db)
         | Inr id' \<Rightarrow>
             (let person = person\<lparr>ID := id'\<rparr>;
                  db = Save B person db;
                  (personList, db) = Find B db;
                  w = Header_Add ''Content-Type'' ''application/json'' w;
                  (w, err) = Encode (Json_People personList) w
              in (err, w, db)))"

subsection \<open>The routes of main\<close>

datatype route = GET_people | GET_person | POST_person | DELETE_person | PUT_person

fun route_handler :: "'t backend \<Rightarrow> route \<Rightarrow> 't handler" where
  "route_handler B GET_people = ListPeople B"
| "route_handler B GET_person = GetPerson B"
| "route_handler B POST_person = CreatePerson B"
| "route_handler B DELETE_person = DeletePerson B"
| "route_handler B PUT_person = UpdatePerson B"


section \<open>A reference backend and sample inputs\<close>

text \<open>
  An instance of the backend parameter, for evaluating the model on concrete inputs.
  Its \<open>ident\<close> reads a schema name the way PostgreSQL reads an unquoted identifier:
  letters, digits and underscores, not starting with a digit, folded to lower case;
  this instance rejects every other text. A table is the list of its rows, keyed by
  \<open>ID\<close>.
\<close>

definition to_lower :: "char \<Rightarrow> char" where
  "to_lower c =
     (case map_of (zip ''ABCDEFGHIJKLMNOPQRSTUVWXYZ'' ''abcdefghijklmnopqrstuvwxyz'') c of
        None \<Rightarrow> c
      | Some d \<Rightarrow> d)"

definition ident_char :: "char \<Rightarrow> bool" where
  "ident_char c \<longleftrightarrow>
     c \<in> set ''ABCDEFGHIJKLMNOPQRSTUVWXYZabcdefghijklmnopqrstuvwxyz0123456789_''"

definition unquoted_ident :: "string \<Rightarrow> string option" where
  "unquoted_ident s =
     (if s \<noteq> [] \<and> list_all ident_char s \<and> digit_val (hd s) = None
      then Some (map to_lower s) else None)"

definition has_id :: "int \<Rightarrow> Person list \<Rightarrow> bool" where
  "has_id i t = list_ex (\<lambda>q. ID q = i) t"

definition postgres_like :: "Person list backend" where
  "postgres_like =
     \<lparr>ident = unquoted_ident,
      empty_table = [],
      select_all = (\<lambda>t. t),
      select_id = (\<lambda>i t. find (\<lambda>q. ID q = i) t),
      insert_row = (\<lambda>p t. if has_id (ID p) t then None else Some (t @ [p])),
      delete_row = (\<lambda>p t. Some (filter (\<lambda>q. ID q \<noteq> ID p) t)),
      save_row = (\<lambda>p t. Some (if has_id (ID p) t
                                 then map (\<lambda>q. if ID q = ID p then p else q) t
                                 else t @ [p]))\<rparr>"

definition empty_pool :: "'t pool" where
  "empty_pool = \<lparr>persisted = Map.empty, calls = []\<rparr>"

definition fresh_writer :: ResponseWriter where
  "fresh_writer = \<lparr>wheader = [], status = None, wbody = [], writable = True\<rparr>"

text \<open>
  A stand-in for the token library on sample inputs: the token \<open>''bad''\<close> does not
  verify, the token \<open>''anonymous''\<close> verifies and carries no tenant claim, and any other
  token verifies and carries itself as the tenant claim.
\<close>

definition sample_parser :: jwt_parser where
  "sample_parser tokenString key =
     (if tokenString = ''bad'' then Inl ''signature is invalid''
      else Inr \<lparr>Claims = \<lparr>UserName = ''user'',
                            Tenant = (if tokenString = ''anonymous'' then [] else tokenString)\<rparr>,
                 Valid = True\<rparr>)"

definition sample_request :: "string \<Rightarrow> string \<Rightarrow> payload \<Rightarrow> Request" where
  "sample_request token path_id body =
     \<lparr>Header = [''Authorization'' \<mapsto> ''Bearer '' @ token],
      Vars = [''id'' \<mapsto> path_id],
      Body = body\<rparr>"

text \<open>
  The allow-list that the specification asks for before a tenant name is put into a
  statement: letters, digits and underscores, of bounded length (63, the longest name
  PostgreSQL keeps). The program has no such check; the predicate only names the
  tenant names that the specification calls safe.
\<close>

definition allow_listed :: "string \<Rightarrow> bool" where
  "allow_listed s = (s \<noteq> [] \<and> length s \<le> 63 \<and> list_all ident_char s)"

section \<open>Notions for tenant isolation\<close>






section \<open>Facts about the model\<close>

subsection \<open>Strings\<close>

lemma SplitN_2_no_space:
  "CHR '' '' \<notin> set s \<Longrightarrow> SplitN_2 s = [s]"
proof -
  assume "CHR '' '' \<notin> set s"
  then have d: "dropWhile (\<lambda>c. c \<noteq> CHR '' '') s = []"
    by auto
  show ?thesis unfolding SplitN_2_def d by simp
qed

lemma SplitN_2_space:
  "CHR '' '' \<notin> set a \<Longrightarrow> SplitN_2 (a @ CHR '' '' # b) = [a, b]"
proof -
  assume a: "CHR '' '' \<notin> set a"
  then have all: "\<And>x. x \<in> set a \<Longrightarrow> x \<noteq> CHR '' ''" by auto
  have d: "dropWhile (\<lambda>c. c \<noteq> CHR '' '') (a @ CHR '' '' # b) = CHR '' '' # b"
    using all by simp
  have t: "takeWhile (\<lambda>c. c \<noteq> CHR '' '') (a @ CHR '' '' # b) = a"
    using all by simp
  show ?thesis unfolding SplitN_2_def d t by simp
qed

lemma SplitN_2_cases:
  "(CHR '' '' \<notin> set s \<and> SplitN_2 s = [s]) \<or>
   (\<exists>a b. s = a @ CHR '' '' # b \<and> CHR '' '' \<notin> set a \<and> SplitN_2 s = [a, b])"
proof (cases "CHR '' '' \<in> set s")
  case False
  then show ?thesis by (simp add: SplitN_2_no_space)
next
  case True
  then obtain a b where s: "s = a @ CHR '' '' # b" and a: "CHR '' '' \<notin> set a"
    by (meson split_list_first)
  then show ?thesis using SplitN_2_space [OF a, of b] by blast
qed

lemma isValidAuthorizationHeader_iff:
  "isValidAuthorizationHeader a \<longleftrightarrow> (\<exists>tok. tok \<noteq> [] \<and> a = ''Bearer '' @ tok)"
proof
  assume v: "isValidAuthorizationHeader a"
  from SplitN_2_cases [of a] show "\<exists>tok. tok \<noteq> [] \<and> a = ''Bearer '' @ tok"
  proof
    assume "CHR '' '' \<notin> set a \<and> SplitN_2 a = [a]"
    with v show ?thesis by (simp add: isValidAuthorizationHeader_def split: if_splits)
  next
    assume "\<exists>x b. a = x @ CHR '' '' # b \<and> CHR '' '' \<notin> set x \<and> SplitN_2 a = [x, b]"
    then obtain x b where "a = x @ CHR '' '' # b" and "SplitN_2 a = [x, b]" by blast
    with v show ?thesis
      by (auto simp add: isValidAuthorizationHeader_def split: if_splits)
  qed
next
  assume "\<exists>tok. tok \<noteq> [] \<and> a = ''Bearer '' @ tok"
  then obtain tok where tok: "tok \<noteq> []" and a: "a = ''Bearer'' @ CHR '' '' # tok" by auto
  have "SplitN_2 a = [''Bearer'', tok]"
    unfolding a by (rule SplitN_2_space) simp
  with tok a show "isValidAuthorizationHeader a"
    by (simp add: isValidAuthorizationHeader_def)
qed

lemma Atoi_5: "Atoi ''5'' = Inr 5"
  by (simp add: Atoi_def digit_val_def)

lemma Atoi_abc: "Atoi ''abc'' = Inl (NumError ''abc'')"
  by (simp add: Atoi_def digit_val_def)


subsection \<open>Calls on the handle\<close>

lemma strip_prefix_append: "strip_prefix p (p @ t) = Some t"
  by (induction p) simp_all

lemma read_statement_create:
  "read_statement B (''create schema if not exists '' @ t) = map_option Create_Schema (ident B t)"
  by (simp add: read_statement_def)

lemma read_statement_set_path:
  "read_statement B (''set search_path to '' @ t) = map_option Set_Search_Path (ident B t)"
  by (simp add: read_statement_def)

lemma issued_Exec: "issued (Exec B sql db) = issued db @ [CExec sql]"
  by (simp add: Exec_def Let_def split: option.splits statement.splits)

lemma issued_AutoMigrate: "issued (AutoMigrate B db) = issued db @ [CAutoMigrate]"
  by (simp add: AutoMigrate_def Let_def split: option.splits)

lemma issued_set_table: "issued (set_table t db) = issued db"
  by (simp add: set_table_def split: option.splits)

lemma issued_change: "issued (change c f db) = issued db @ [c]"
  by (simp add: change_def Let_def issued_set_table split: option.splits)

lemma issued_Find: "issued (snd (Find B db)) = issued db @ [CFind]"
  by (simp add: Find_def Let_def split: option.splits)

lemma issued_Where_Find: "issued (snd (Where_Find B i p db)) = issued db @ [CWhere_Find i]"
  by (simp add: Where_Find_def Let_def split: option.splits)

lemma issued_Find': "Find B db = (ps, db') \<Longrightarrow> issued db' = issued db @ [CFind]"
  using issued_Find [of B db] by simp

lemma issued_Where_Find':
  "Where_Find B i p db = (q, db') \<Longrightarrow> issued db' = issued db @ [CWhere_Find i]"
  using issued_Where_Find [of B i p db] by simp

lemma aborted_change: "aborted db \<Longrightarrow> change c f db = db\<lparr>issued := issued db @ [c]\<rparr>"
  by (simp add: change_def Let_def)

lemma aborted_Find: "aborted db \<Longrightarrow> Find B db = ([], db\<lparr>issued := issued db @ [CFind]\<rparr>)"
  by (simp add: Find_def Let_def)

lemma aborted_Where_Find:
  "aborted db \<Longrightarrow> Where_Find B i p db = (p, db\<lparr>issued := issued db @ [CWhere_Find i]\<rparr>)"
  by (simp add: Where_Find_def Let_def)

lemma Exec_create_rejected:
  "ident B tenant = None \<Longrightarrow>
   aborted (Exec B (''create schema if not exists '' @ tenant) db)"
  unfolding Exec_def read_statement_create by (simp add: Let_def)








subsection \<open>Provisioning\<close>

lemma provision_eq:
  "provision B tenant db =
     (let db1 = db\<lparr>issued := issued db @
                   [CExec (''create schema if not exists '' @ tenant),
                    CExec (''set search_path to '' @ tenant), CAutoMigrate]\<rparr>
      in if aborted db then db1
         else case ident B tenant of
                None \<Rightarrow> db1\<lparr>aborted := True\<rparr>
              | Some n \<Rightarrow>
                  db1\<lparr>search_path := Some n,
                      working := (working db)(n \<mapsto>
                        Some (case working db n of Some (Some t) \<Rightarrow> t | _ \<Rightarrow> empty_table B))\<rparr>)"
proof (cases "aborted db")
  case True
  then show ?thesis
    unfolding provision_def Exec_def AutoMigrate_def by (simp add: Let_def)
next
  case live: False
  show ?thesis
  proof (cases "ident B tenant")
    case None
    with live show ?thesis
      unfolding provision_def Exec_def AutoMigrate_def read_statement_create
        read_statement_set_path
      by (simp add: Let_def)
  next
    case (Some n)
    show ?thesis
    proof (cases "working db n")
      case None
      with live Some show ?thesis
        unfolding provision_def Exec_def AutoMigrate_def read_statement_create
          read_statement_set_path
        by (simp add: Let_def)
    next
      case present: (Some tab)
      show ?thesis
      proof (cases tab)
        case None
        with live Some present show ?thesis
          unfolding provision_def Exec_def AutoMigrate_def read_statement_create
            read_statement_set_path
          by (simp add: Let_def)
      next
        case (Some t)
        with present have "(working db)(n \<mapsto> Some t) = working db"
          by (simp add: fun_upd_idem)
        with live \<open>ident B tenant = Some n\<close> present Some show ?thesis
          unfolding provision_def Exec_def AutoMigrate_def read_statement_create
            read_statement_set_path
          by (simp add: Let_def)
      qed
    qed
  qed
qed

lemma provisioned_eq:
  "provisioned B tenant pool =
     (case ident B tenant of
        None \<Rightarrow>
          \<lparr>working = persisted pool, search_path = None, aborted = True,
           issued = [CBegin, CExec (''create schema if not exists '' @ tenant),
                     CExec (''set search_path to '' @ tenant), CAutoMigrate]\<rparr>
      | Some n \<Rightarrow>
          \<lparr>working = (persisted pool)(n \<mapsto>
             Some (case persisted pool n of Some (Some t) \<Rightarrow> t | _ \<Rightarrow> empty_table B)),
           search_path = Some n, aborted = False,
           issued = [CBegin, CExec (''create schema if not exists '' @ tenant),
                     CExec (''set search_path to '' @ tenant), CAutoMigrate]\<rparr>)"
  by (simp add: provisioned_def provision_eq Begin_def Let_def split: option.splits)

lemma provisioned_rejected:
  "ident B tenant = None \<Longrightarrow>
   provisioned B tenant pool =
     \<lparr>working = persisted pool, search_path = None, aborted = True,
      issued = [CBegin, CExec (''create schema if not exists '' @ tenant),
                CExec (''set search_path to '' @ tenant), CAutoMigrate]\<rparr>"
  by (simp add: provisioned_eq)

lemma issued_provisioned:
  "issued (provisioned B tenant pool) =
     [CBegin, CExec (''create schema if not exists '' @ tenant),
      CExec (''set search_path to '' @ tenant), CAutoMigrate]"
  by (simp add: provisioned_def provision_def issued_AutoMigrate issued_Exec Begin_def)

lemma aborted_provisioned: "aborted (provisioned B tenant pool) \<longleftrightarrow> ident B tenant = None"
  by (simp add: provisioned_eq split: option.splits)

subsection \<open>prepare and authorize\<close>


lemma prepare_provisioned:
  "prepare B h w r tenant pool =
     (case h w r (provisioned B tenant pool) of
        (err, w', db) \<Rightarrow> (w', if err = None then Commit db pool else Rollback db pool))"
  by (simp add: prepare_def provisioned_def provision_def Let_def split: prod.splits)

lemma calls_prepare:
  "calls (snd (prepare B h w r tenant pool)) =
     calls pool @ issued (snd (snd (h w r (provisioned B tenant pool)))) @
       [if fst (h w r (provisioned B tenant pool)) = None then CCommit else CRollback]"
  by (cases "h w r (provisioned B tenant pool)")
     (simp add: prepare_provisioned Commit_def Rollback_def)

lemma response_prepare:
  "fst (prepare B h w r tenant pool) = fst (snd (h w r (provisioned B tenant pool)))"
  by (cases "h w r (provisioned B tenant pool)") (simp add: prepare_provisioned)

lemma persisted_prepare:
  "persisted (snd (prepare B h w r tenant pool)) =
     (if fst (h w r (provisioned B tenant pool)) = None \<and>
         \<not> aborted (snd (snd (h w r (provisioned B tenant pool))))
      then working (snd (snd (h w r (provisioned B tenant pool))))
      else persisted pool)"
  by (cases "h w r (provisioned B tenant pool)")
     (simp add: prepare_provisioned Commit_def Rollback_def)

lemma status_http_Error: "status w = None \<Longrightarrow> status (http_Error w msg code) = Some code"
  by (simp add: http_Error_def Write_def WriteHeader_def Header_Set_def Let_def)

lemma authorize_invalid_header:
  "\<not> isValidAuthorizationHeader (Header_Get r ''Authorization'') \<Longrightarrow>
   authorize B P h w r pool =
     (http_Error w (''Invalid authorization header: '' @ Header_Get r ''Authorization'') 401, pool)"
  by (simp add: authorize_def Let_def)

lemma authorize_valid:
  "isValidAuthorizationHeader (Header_Get r ''Authorization'') \<Longrightarrow>
   P (SplitN_2 (Header_Get r ''Authorization'') ! 1) jwtKey = Inr token \<Longrightarrow>
   Valid token \<Longrightarrow>
   authorize B P h w r pool = prepare B h w r (Tenant (Claims token)) pool"
  by (simp add: authorize_def Let_def)


subsection \<open>The handlers\<close>

lemma issued_ListPeople:
  "issued (snd (snd (ListPeople B w r db))) = issued db @ [CFind]"
  by (auto simp add: ListPeople_def Let_def split: prod.splits dest!: issued_Find')

lemma issued_GetPerson:
  "issued (snd (snd (GetPerson B w r db))) =
     (case Atoi (Vars_get r ''id'') of
        Inl e \<Rightarrow> issued db
      | Inr n \<Rightarrow> issued db @ [CWhere_Find n])"
  by (auto simp add: GetPerson_def Let_def split: prod.splits sum.splits
      dest: issued_Where_Find')

lemma issued_CreatePerson:
  "issued (snd (snd (CreatePerson B w r db))) =
     (case Atoi (Vars_get r ''id'') of
        Inl e \<Rightarrow> issued db
      | Inr n \<Rightarrow> issued db @ [CCreate \<lparr>ID = n, Name = Name (Decode (Body r) zero_Person)\<rparr>, CFind])"
  by (auto simp add: CreatePerson_def Create_def issued_change Let_def
      split: prod.splits sum.splits dest!: issued_Find')

lemma issued_DeletePerson:
  "issued (snd (snd (DeletePerson B w r db))) =
     (case Atoi (Vars_get r ''id'') of
        Inl e \<Rightarrow> issued db
      | Inr n \<Rightarrow> issued db @ [CDelete \<lparr>ID = n, Name = []\<rparr>, CFind])"
  by (auto simp add: DeletePerson_def Delete_def issued_change Let_def zero_Person_def
      split: prod.splits sum.splits dest!: issued_Find')

lemma issued_UpdatePerson:
  "issued (snd (snd (UpdatePerson B w r db))) =
     (case Atoi (Vars_get r ''id'') of
        Inl e \<Rightarrow> issued db
      | Inr n \<Rightarrow> issued db @ [CSave \<lparr>ID = n, Name = Name (Decode (Body r) zero_Person)\<rparr>, CFind])"
  by (auto simp add: UpdatePerson_def Save_def issued_change Let_def
      split: prod.splits sum.splits dest!: issued_Find')

lemma issued_route_handler:
  "\<exists>cs. issued (snd (snd (route_handler B rt w r db))) = issued db @ cs \<and> filter terminal cs = []"
  by (cases rt)
     (simp_all add: issued_ListPeople issued_GetPerson issued_CreatePerson issued_DeletePerson
        issued_UpdatePerson terminal_def split: sum.splits)

lemma issued_route_handler_prefix:
  "take (length (issued db)) (issued (snd (snd (route_handler B rt w r db)))) = issued db"
  using issued_route_handler [of B rt w r db] by auto

lemma calls_prepare_route:
  "take 4 (drop (length (calls pool))
     (calls (snd (prepare B (route_handler B rt) w r tenant pool)))) =
   [CBegin, CExec (''create schema if not exists '' @ tenant),
    CExec (''set search_path to '' @ tenant), CAutoMigrate]"
proof -
  obtain cs where
    "issued (snd (snd (route_handler B rt w r (provisioned B tenant pool)))) =
       issued (provisioned B tenant pool) @ cs"
    using issued_route_handler [of B rt w r "provisioned B tenant pool"] by blast
  then show ?thesis
    by (simp add: calls_prepare issued_provisioned)
qed

lemma fst_ListPeople: "fst (ListPeople B w r db) = None"
  by (simp add: ListPeople_def Let_def split: prod.splits)

lemma status_Encode:
  "status w = None \<Longrightarrow> status (fst (Encode c (Header_Add k v w))) = Some 200"
  by (simp add: Encode_def Write_def WriteHeader_def Header_Add_def Let_def)

lemma status_route_handler:
  "status w = None \<Longrightarrow>
   status (fst (snd (route_handler B rt w r db))) = None \<or>
   status (fst (snd (route_handler B rt w r db))) = Some 200"
  by (cases rt)
     (auto simp add: ListPeople_def GetPerson_def CreatePerson_def DeletePerson_def
        UpdatePerson_def Encode_def Write_def WriteHeader_def Header_Add_def Let_def
        split: prod.splits sum.splits if_splits)

lemma route_handler_parse_error:
  "Atoi (Vars_get r ''id'') = Inl e \<Longrightarrow> rt \<noteq> GET_people \<Longrightarrow>
   route_handler B rt w r db = (Some e, w, db)"
  by (cases rt)
     (simp_all add: GetPerson_def CreatePerson_def DeletePerson_def UpdatePerson_def)

lemma aborted_route_handler:
  "aborted db \<Longrightarrow>
   aborted (snd (snd (route_handler B rt w r db))) \<and>
   working (snd (snd (route_handler B rt w r db))) = working db"
  by (cases rt)
     (auto simp add: ListPeople_def GetPerson_def CreatePerson_def DeletePerson_def
        UpdatePerson_def Create_def Delete_def Save_def aborted_change aborted_Find
        aborted_Where_Find Let_def split: prod.splits sum.splits)



subsection \<open>The sample inputs\<close>


lemma valid_Bearer_abc: "isValidAuthorizationHeader ''Bearer abc''"
  by (simp add: isValidAuthorizationHeader_def SplitN_2_def)

lemma invalid_Basic_abc: "\<not> isValidAuthorizationHeader ''Basic abc''"
  by (simp add: isValidAuthorizationHeader_def SplitN_2_def)

lemma invalid_Bearer_only: "\<not> isValidAuthorizationHeader ''Bearer ''"
  by (simp add: isValidAuthorizationHeader_def SplitN_2_def)

lemma sample_request_Bearer:
  "Header_Get (sample_request tok i b) ''Authorization'' = ''Bearer '' @ tok"
  by (simp add: sample_request_def Header_Get_def)

lemma SplitN_2_Bearer: "SplitN_2 (''Bearer '' @ tok) = [''Bearer'', tok]"
  using SplitN_2_space [of "''Bearer''" tok] by simp

lemma sample_request_valid:
  "tok \<noteq> [] \<Longrightarrow> isValidAuthorizationHeader (Header_Get (sample_request tok i b) ''Authorization'')"
  unfolding sample_request_Bearer isValidAuthorizationHeader_iff by blast

lemma sample_request_token:
  "SplitN_2 (Header_Get (sample_request tok i b) ''Authorization'') ! 1 = tok"
  unfolding sample_request_Bearer SplitN_2_Bearer by simp

lemma authorize_sample:
  assumes "tok \<noteq> []" and "tok \<noteq> ''bad''"
  shows "authorize B sample_parser h w (sample_request tok i b) pool =
     prepare B h w (sample_request tok i b) (if tok = ''anonymous'' then [] else tok) pool"
proof -
  let ?r = "sample_request tok i b"
  let ?t = "\<lparr>Claims = \<lparr>UserName = ''user'',
                Tenant = (if tok = ''anonymous'' then [] else tok)\<rparr>, Valid = True\<rparr>"
  have v: "isValidAuthorizationHeader (Header_Get ?r ''Authorization'')"
    by (rule sample_request_valid [OF assms(1)])
  have p: "sample_parser (SplitN_2 (Header_Get ?r ''Authorization'') ! 1) jwtKey = Inr ?t"
    unfolding sample_request_token using assms(2) by (simp add: sample_parser_def)
  show ?thesis
    using authorize_valid [where P = sample_parser and r = ?r and token = ?t
        and B = B and h = h and w = w and pool = pool, OF v p] by simp
qed



lemma ident_empty: "ident postgres_like [] = None"
  by (simp add: postgres_like_def unquoted_ident_def)

lemma ident_acme: "ident postgres_like ''acme'' = Some ''acme''"
  by (simp add: postgres_like_def unquoted_ident_def ident_char_def to_lower_def
      digit_val_def)



lemma provisioned_acme:
  "provisioned postgres_like ''acme'' empty_pool =
     \<lparr>working = [''acme'' \<mapsto> Some []], search_path = Some ''acme'', aborted = False,
      issued = [CBegin, CExec ''create schema if not exists acme'',
                CExec ''set search_path to acme'', CAutoMigrate]\<rparr>"
  by (simp add: provisioned_eq ident_acme empty_pool_def) (simp add: postgres_like_def)

lemma ListPeople_aborted:
  "aborted db \<Longrightarrow>
   ListPeople B fresh_writer r db =
     (None,
      \<lparr>wheader = [(''Content-Type'', ''application/json'')], status = Some 200,
       wbody = [Json_People []], writable = True\<rparr>,
      db\<lparr>issued := issued db @ [CFind]\<rparr>)"
  by (simp add: ListPeople_def Find_def Encode_def Write_def WriteHeader_def Header_Add_def
      fresh_writer_def Let_def)

lemma CreatePerson_unwritable:
  "CreatePerson postgres_like (fresh_writer\<lparr>writable := False\<rparr>)
     (sample_request ''acme'' ''5'' (Object None (Some ''Grace'')))
     (provisioned postgres_like ''acme'' empty_pool) =
   (Some WriteError,
    \<lparr>wheader = [(''Content-Type'', ''application/json'')], status = Some 200, wbody = [],
     writable = False\<rparr>,
    \<lparr>working = [''acme'' \<mapsto> Some [\<lparr>ID = 5, Name = ''Grace''\<rparr>]],
     search_path = Some ''acme'', aborted = False,
     issued = [CBegin, CExec ''create schema if not exists acme'',
               CExec ''set search_path to acme'', CAutoMigrate,
               CCreate \<lparr>ID = 5, Name = ''Grace''\<rparr>, CFind]\<rparr>)"
  unfolding provisioned_acme
  by (simp add: CreatePerson_def Create_def change_def Find_def
      current_table_def set_table_def Decode_def zero_Person_def Vars_get_def
      sample_request_def Atoi_5 Encode_def Write_def WriteHeader_def Header_Add_def
      fresh_writer_def Let_def postgres_like_def has_id_def)



section \<open>Tenant isolation\<close>










section \<open>Tenant names are not checked\<close>

text \<open>
  Claim C2 says that partition provisioning rejects a tenant name that is not safe to
  put into a statement. \<open>prepare\<close> has no check: for a name with spaces and a semicolon
  it sends both statements with the name inside.
\<close>

theorem unsafe_identifier_counterexample:
  "\<not> allow_listed ''x; drop schema y cascade'' \<and>
   take 4 (calls (snd (prepare postgres_like (ListPeople postgres_like) fresh_writer
      (sample_request ''t'' [] No_Object) ''x; drop schema y cascade'' empty_pool))) =
   [CBegin, CExec ''create schema if not exists x; drop schema y cascade'',
    CExec ''set search_path to x; drop schema y cascade'', CAutoMigrate]"
  by (simp add: allow_listed_def ident_char_def calls_prepare issued_ListPeople
      issued_provisioned empty_pool_def)

text \<open>
  Claim C2, as the program has it. For every tenant name, allow-listed or not,
  \<open>prepare\<close> opens the transaction, sends the schema creation and the search path
  statements with the name appended as it is, migrates and calls the handler: the
  response is the one the handler leaves, and with each of the five handlers the
  calls added to the pool start with these four.
\<close>

theorem provisioning_statements_unchecked:
  "issued (provisioned B tenant pool) =
     [CBegin, CExec (''create schema if not exists '' @ tenant),
      CExec (''set search_path to '' @ tenant), CAutoMigrate] \<and>
   fst (prepare B h w r tenant pool) = fst (snd (h w r (provisioned B tenant pool))) \<and>
   take 4 (drop (length (calls pool))
     (calls (snd (prepare B (route_handler B rt) w r tenant pool)))) =
     [CBegin, CExec (''create schema if not exists '' @ tenant),
      CExec (''set search_path to '' @ tenant), CAutoMigrate]"
  by (simp only: issued_provisioned response_prepare calls_prepare_route simp_thms)

section \<open>Tokens without a tenant\<close>

text \<open>
  Claim C3 says that a verified token with an empty or absent tenant claim is answered
  with 401, without a transaction and without provisioning. \<open>authorize\<close> does not look
  at the claim: for such a token the transaction is opened, both statements are sent
  with nothing after the fixed words, the handler runs and the response has status 200.
\<close>

theorem empty_tenant_counterexample:
  "sample_parser ''anonymous'' jwtKey =
     Inr \<lparr>Claims = \<lparr>UserName = ''user'', Tenant = []\<rparr>, Valid = True\<rparr> \<and>
   status (fst (authorize postgres_like sample_parser (ListPeople postgres_like) fresh_writer
      (sample_request ''anonymous'' [] No_Object) empty_pool)) = Some 200 \<and>
   calls (snd (authorize postgres_like sample_parser (ListPeople postgres_like) fresh_writer
      (sample_request ''anonymous'' [] No_Object) empty_pool)) =
     [CBegin, CExec ''create schema if not exists '', CExec ''set search_path to '',
      CAutoMigrate, CFind, CCommit]"
  by (simp add: authorize_sample prepare_provisioned provisioned_rejected ident_empty
      ListPeople_aborted Commit_def empty_pool_def)
    (simp add: sample_parser_def)

text \<open>
  Claim C3, as the program has it. For a verified token whose tenant claim is empty,
  \<open>authorize\<close> is \<open>prepare\<close> with the empty tenant: with each of the five handlers the
  transaction is opened and the two statements are sent with an empty name, and the
  status of the response is not 401 (when nothing had been written before).
\<close>

theorem empty_tenant_is_provisioned:
  assumes "isValidAuthorizationHeader (Header_Get r ''Authorization'')"
    and "P (SplitN_2 (Header_Get r ''Authorization'') ! 1) jwtKey = Inr token"
    and "Valid token"
    and "Tenant (Claims token) = []"
  shows "authorize B P h w r pool = prepare B h w r [] pool \<and>
    take 4 (drop (length (calls pool))
      (calls (snd (authorize B P (route_handler B rt) w r pool)))) =
      [CBegin, CExec ''create schema if not exists '', CExec ''set search_path to '',
       CAutoMigrate] \<and>
    (status w = None \<longrightarrow>
       status (fst (authorize B P (route_handler B rt) w r pool)) \<noteq> Some 401)"
proof (intro conjI impI)
  have eq: "authorize B P h' w r pool = prepare B h' w r [] pool" for h' :: "'a handler"
    using authorize_valid [where P = P and r = r and token = token and B = B and h = h'
        and w = w and pool = pool, OF assms(1) assms(2) assms(3)]
    by (simp add: assms(4))
  show "authorize B P h w r pool = prepare B h w r [] pool"
    by (rule eq)
  show "take 4 (drop (length (calls pool))
      (calls (snd (authorize B P (route_handler B rt) w r pool)))) =
      [CBegin, CExec ''create schema if not exists '', CExec ''set search_path to '',
       CAutoMigrate]"
    using calls_prepare_route [of pool B rt w r "[]"] by (simp add: eq)
  show "status (fst (authorize B P (route_handler B rt) w r pool)) \<noteq> Some 401"
    if "status w = None"
    using status_route_handler [OF that, of B rt r "provisioned B [] pool"]
    by (auto simp add: eq response_prepare)
qed

theorem empty_tenant_is_provisioned_witness:
  "isValidAuthorizationHeader
     (Header_Get (sample_request ''anonymous'' [] No_Object) ''Authorization'') \<and>
   sample_parser
     (SplitN_2 (Header_Get (sample_request ''anonymous'' [] No_Object) ''Authorization'') ! 1)
     jwtKey = Inr \<lparr>Claims = \<lparr>UserName = ''user'', Tenant = []\<rparr>, Valid = True\<rparr> \<and>
   authorize postgres_like sample_parser (ListPeople postgres_like) fresh_writer
     (sample_request ''anonymous'' [] No_Object) empty_pool =
   prepare postgres_like (ListPeople postgres_like) fresh_writer
     (sample_request ''anonymous'' [] No_Object) [] empty_pool"
proof -
  let ?r = "sample_request ''anonymous'' [] No_Object"
  let ?t = "\<lparr>Claims = \<lparr>UserName = ''user'', Tenant = []\<rparr>, Valid = True\<rparr>"
  have v: "isValidAuthorizationHeader (Header_Get ?r ''Authorization'')"
    by (rule sample_request_valid) simp
  have p: "sample_parser (SplitN_2 (Header_Get ?r ''Authorization'') ! 1) jwtKey = Inr ?t"
    unfolding sample_request_token by (simp add: sample_parser_def)
  have ok: "Valid ?t" and none: "Tenant (Claims ?t) = []"
    by simp_all
  from empty_tenant_is_provisioned [where P = sample_parser and r = ?r and token = ?t
      and B = postgres_like and h = "ListPeople postgres_like" and w = fresh_writer
      and pool = empty_pool, OF v p ok none] v p
  show ?thesis by blast
qed

section \<open>A failed provisioning step\<close>

text \<open>
  Claim C4 says that a failed provisioning step is propagated: rollback, and the handler
  is not treated as having succeeded. \<open>prepare\<close> looks at no result of the three calls:
  with an empty tenant name the first statement fails, the handler still runs, and the
  transaction ends with a commit and a response of status 200.
\<close>

theorem provisioning_failure_counterexample:
  "aborted (Exec postgres_like ''create schema if not exists '' (Begin empty_pool)) \<and>
   calls (snd (prepare postgres_like (ListPeople postgres_like) fresh_writer
      (sample_request ''anonymous'' [] No_Object) [] empty_pool)) =
     [CBegin, CExec ''create schema if not exists '', CExec ''set search_path to '',
      CAutoMigrate, CFind, CCommit] \<and>
   status (fst (prepare postgres_like (ListPeople postgres_like) fresh_writer
      (sample_request ''anonymous'' [] No_Object) [] empty_pool)) = Some 200"
  using Exec_create_rejected [OF ident_empty, of "Begin empty_pool"]
  by (simp add: prepare_provisioned provisioned_rejected ident_empty
      ListPeople_aborted Commit_def empty_pool_def)

text \<open>
  Claim C4, as the program has it. When provisioning has failed (the handle that the
  handler receives is aborted), nothing is propagated: \<open>prepare\<close> still calls the
  handler and ends with a commit when the handler returns no error and with a rollback
  only when it returns one; \<open>ListPeople\<close>, which never returns an error, always ends in
  a commit. With each of the five handlers the persisted state stays as it was, since
  the backend commits nothing of a transaction in which a statement failed.
\<close>

theorem provisioning_failure_not_propagated:
  assumes "aborted (provisioned B tenant pool)"
  shows "fst (prepare B h w r tenant pool) = fst (snd (h w r (provisioned B tenant pool))) \<and>
    last (calls (snd (prepare B h w r tenant pool))) =
      (if fst (h w r (provisioned B tenant pool)) = None then CCommit else CRollback) \<and>
    last (calls (snd (prepare B (ListPeople B) w r tenant pool))) = CCommit \<and>
    persisted (snd (prepare B (route_handler B rt) w r tenant pool)) = persisted pool"
proof (intro conjI)
  show "fst (prepare B h w r tenant pool) = fst (snd (h w r (provisioned B tenant pool)))"
    by (rule response_prepare)
  show "last (calls (snd (prepare B h w r tenant pool))) =
      (if fst (h w r (provisioned B tenant pool)) = None then CCommit else CRollback)"
    by (simp add: calls_prepare)
  show "last (calls (snd (prepare B (ListPeople B) w r tenant pool))) = CCommit"
    by (simp add: calls_prepare fst_ListPeople)
  show "persisted (snd (prepare B (route_handler B rt) w r tenant pool)) = persisted pool"
    using aborted_route_handler [OF assms, of B rt w r]
    by (simp add: persisted_prepare)
qed

theorem provisioning_failure_not_propagated_witness:
  "aborted (provisioned postgres_like [] empty_pool) \<and>
   last (calls (snd (prepare postgres_like (ListPeople postgres_like) fresh_writer
      (sample_request ''anonymous'' [] No_Object) [] empty_pool))) = CCommit \<and>
   persisted (snd (prepare postgres_like (route_handler postgres_like GET_people) fresh_writer
      (sample_request ''anonymous'' [] No_Object) [] empty_pool)) = persisted empty_pool"
proof -
  have a: "aborted (provisioned postgres_like [] (empty_pool :: Person list pool))"
    by (simp add: aborted_provisioned ident_empty)
  from provisioning_failure_not_propagated [OF a, of "ListPeople postgres_like" fresh_writer
      "sample_request ''anonymous'' [] No_Object" GET_people] a
  show ?thesis by blast
qed

section \<open>When the handler returns an error\<close>

text \<open>
  Claim C5 says that the dispatcher answers with an error status when the handler
  fails. \<open>prepare\<close> writes nothing: a DELETE whose path id is not a number ends with the
  handler's error, a rollback, and a response without status and without body.
\<close>

theorem handler_error_response_counterexample:
  "fst (DeletePerson postgres_like fresh_writer (sample_request ''acme'' ''abc'' No_Object)
         (provisioned postgres_like ''acme'' empty_pool)) = Some (NumError ''abc'') \<and>
   fst (prepare postgres_like (DeletePerson postgres_like) fresh_writer
         (sample_request ''acme'' ''abc'' No_Object) ''acme'' empty_pool) =
     \<lparr>wheader = [], status = None, wbody = [], writable = True\<rparr> \<and>
   last (calls (snd (prepare postgres_like (DeletePerson postgres_like) fresh_writer
         (sample_request ''acme'' ''abc'' No_Object) ''acme'' empty_pool))) = CRollback"
  by (simp add: response_prepare calls_prepare DeletePerson_def Vars_get_def
      sample_request_def Atoi_abc fresh_writer_def)

text \<open>
  Claim C5, as the program has it. \<open>prepare\<close> never writes to the response: whatever the
  handler returns, the response is the one the handler left, and an error of the
  handler only turns the commit into a rollback. With the five handlers the response
  of a failed request carries no error status: its status is absent or 200 (when
  nothing had been written before), and after an error of \<open>Atoi\<close> it is the writer as
  it was given.
\<close>

theorem handler_error_leaves_response:
  "fst (prepare B h w r tenant pool) = fst (snd (h w r (provisioned B tenant pool))) \<and>
   (fst (h w r (provisioned B tenant pool)) \<noteq> None \<longrightarrow>
      last (calls (snd (prepare B h w r tenant pool))) = CRollback) \<and>
   (status w = None \<longrightarrow>
      status (fst (prepare B (route_handler B rt) w r tenant pool)) = None \<or>
      status (fst (prepare B (route_handler B rt) w r tenant pool)) = Some 200) \<and>
   (Atoi (Vars_get r ''id'') = Inl e \<and> rt \<noteq> GET_people \<longrightarrow>
      fst (prepare B (route_handler B rt) w r tenant pool) = w)"
proof (intro conjI impI)
  show "fst (prepare B h w r tenant pool) = fst (snd (h w r (provisioned B tenant pool)))"
    by (rule response_prepare)
  show "last (calls (snd (prepare B h w r tenant pool))) = CRollback"
    if "fst (h w r (provisioned B tenant pool)) \<noteq> None"
    using that by (simp add: calls_prepare)
  show "status (fst (prepare B (route_handler B rt) w r tenant pool)) = None \<or>
      status (fst (prepare B (route_handler B rt) w r tenant pool)) = Some 200"
    if "status w = None"
    unfolding response_prepare by (rule status_route_handler [OF that])
  show "fst (prepare B (route_handler B rt) w r tenant pool) = w"
    if "Atoi (Vars_get r ''id'') = Inl e \<and> rt \<noteq> GET_people"
    using that by (simp add: response_prepare route_handler_parse_error)
qed

theorem handler_error_leaves_response_witness:
  "fst (route_handler postgres_like DELETE_person fresh_writer
          (sample_request ''acme'' ''abc'' No_Object)
          (provisioned postgres_like ''acme'' empty_pool)) \<noteq> None \<and>
   status fresh_writer = None \<and>
   Atoi (Vars_get (sample_request ''acme'' ''abc'' No_Object) ''id'') = Inl (NumError ''abc'') \<and>
   DELETE_person \<noteq> GET_people \<and>
   last (calls (snd (prepare postgres_like (route_handler postgres_like DELETE_person)
     fresh_writer (sample_request ''acme'' ''abc'' No_Object) ''acme'' empty_pool))) = CRollback \<and>
   fst (prepare postgres_like (route_handler postgres_like DELETE_person)
     fresh_writer (sample_request ''acme'' ''abc'' No_Object) ''acme'' empty_pool) = fresh_writer"
proof -
  let ?r = "sample_request ''acme'' ''abc'' No_Object"
  have a: "Atoi (Vars_get ?r ''id'') = Inl (NumError ''abc'')"
    by (simp add: Vars_get_def sample_request_def Atoi_abc)
  have f: "fst (route_handler postgres_like DELETE_person fresh_writer ?r
                 (provisioned postgres_like ''acme'' empty_pool)) \<noteq> None"
    by (simp add: DeletePerson_def a)
  have s: "status fresh_writer = None"
    by (simp add: fresh_writer_def)
  have d: "DELETE_person \<noteq> GET_people"
    by simp
  from handler_error_leaves_response [of postgres_like
      "route_handler postgres_like DELETE_person" fresh_writer ?r "''acme''" empty_pool
      DELETE_person "NumError ''abc''"] a f s d
  show ?thesis by blast
qed

section \<open>The exit of the transaction\<close>



section \<open>Requests with a malformed authorization header\<close>

text \<open>
  Claim C7. The header check accepts exactly the values \<open>''Bearer '' @ tok\<close> with a
  non-empty \<open>tok\<close>: the word Bearer before the first space and something after it. For
  every other value (an absent header reads as the empty string) \<open>authorize\<close> answers with
  \<^verbatim>\<open>http.Error\<close> and the code 401, whatever the token parser is (it is not called), and
  returns the pool as it was: no transaction is opened. The status of the response is
  401 when nothing had been written to it before.
\<close>

theorem authorization_header_rule:
  "(isValidAuthorizationHeader a \<longleftrightarrow> (\<exists>tok. tok \<noteq> [] \<and> a = ''Bearer '' @ tok)) \<and>
   (\<not> isValidAuthorizationHeader (Header_Get r ''Authorization'') \<longrightarrow>
      authorize B P h w r pool =
        (http_Error w (''Invalid authorization header: '' @ Header_Get r ''Authorization'') 401,
         pool) \<and>
      authorize B P h w r pool = authorize B P' h w r pool \<and>
      snd (authorize B P h w r pool) = pool \<and>
      (status w = None \<longrightarrow> status (fst (authorize B P h w r pool)) = Some 401))"
proof (intro conjI impI)
  show "isValidAuthorizationHeader a \<longleftrightarrow> (\<exists>tok. tok \<noteq> [] \<and> a = ''Bearer '' @ tok)"
    by (rule isValidAuthorizationHeader_iff)
next
  assume inv: "\<not> isValidAuthorizationHeader (Header_Get r ''Authorization'')"
  show "authorize B P h w r pool =
        (http_Error w (''Invalid authorization header: '' @ Header_Get r ''Authorization'') 401,
         pool)"
    by (rule authorize_invalid_header [OF inv])
  show "authorize B P h w r pool = authorize B P' h w r pool"
    by (simp only: authorize_invalid_header [OF inv])
  show "snd (authorize B P h w r pool) = pool"
    by (simp only: authorize_invalid_header [OF inv] snd_conv)
  show "status (fst (authorize B P h w r pool)) = Some 401" if "status w = None"
    using that by (simp only: authorize_invalid_header [OF inv] fst_conv status_http_Error)
qed

theorem authorization_header_rule_witness:
  "\<not> isValidAuthorizationHeader [] \<and>
   \<not> isValidAuthorizationHeader ''Basic abc'' \<and>
   \<not> isValidAuthorizationHeader ''Bearer '' \<and>
   isValidAuthorizationHeader ''Bearer abc'' \<and>
   \<not> isValidAuthorizationHeader
       (Header_Get \<lparr>Header = [''Authorization'' \<mapsto> ''Basic abc''], Vars = Map.empty,
                     Body = No_Object\<rparr> ''Authorization'') \<and>
   status fresh_writer = None \<and>
   status (fst (authorize postgres_like sample_parser (ListPeople postgres_like) fresh_writer
      \<lparr>Header = [''Authorization'' \<mapsto> ''Basic abc''], Vars = Map.empty, Body = No_Object\<rparr>
      empty_pool)) = Some 401 \<and>
   snd (authorize postgres_like sample_parser (ListPeople postgres_like) fresh_writer
      \<lparr>Header = [''Authorization'' \<mapsto> ''Basic abc''], Vars = Map.empty, Body = No_Object\<rparr>
      empty_pool) = empty_pool"
proof -
  let ?r = "\<lparr>Header = [''Authorization'' \<mapsto> ''Basic abc''], Vars = Map.empty,
              Body = No_Object\<rparr>"
  have e: "\<not> isValidAuthorizationHeader []"
    by (simp add: isValidAuthorizationHeader_def)
  have g: "Header_Get ?r ''Authorization'' = ''Basic abc''"
    by (simp add: Header_Get_def)
  have h: "\<not> isValidAuthorizationHeader (Header_Get ?r ''Authorization'')"
    unfolding g by (rule invalid_Basic_abc)
  have s: "status fresh_writer = None"
    by (simp add: fresh_writer_def)
  from authorization_header_rule
    [of "''Basic abc''" ?r postgres_like sample_parser "ListPeople postgres_like" fresh_writer
        empty_pool sample_parser] h s e invalid_Basic_abc invalid_Bearer_only valid_Bearer_abc
  show ?thesis by blast
qed

section \<open>Atomicity\<close>

text \<open>
  Claim C8. When the handler returns an error, whatever it did on the handle before,
  the persisted state after \<open>prepare\<close> is the persisted state before it.
\<close>

theorem handler_failure_is_atomic:
  "fst (h w r (provisioned B tenant pool)) \<noteq> None \<Longrightarrow>
   persisted (snd (prepare B h w r tenant pool)) = persisted pool"
  by (auto simp add: persisted_prepare)

theorem handler_failure_is_atomic_witness:
  "fst (CreatePerson postgres_like (fresh_writer\<lparr>writable := False\<rparr>)
         (sample_request ''acme'' ''5'' (Object None (Some ''Grace'')))
         (provisioned postgres_like ''acme'' empty_pool)) \<noteq> None \<and>
   working (snd (snd (CreatePerson postgres_like (fresh_writer\<lparr>writable := False\<rparr>)
         (sample_request ''acme'' ''5'' (Object None (Some ''Grace'')))
         (provisioned postgres_like ''acme'' empty_pool)))) ''acme'' =
     Some (Some [\<lparr>ID = 5, Name = ''Grace''\<rparr>]) \<and>
   persisted (snd (prepare postgres_like (CreatePerson postgres_like)
         (fresh_writer\<lparr>writable := False\<rparr>)
         (sample_request ''acme'' ''5'' (Object None (Some ''Grace''))) ''acme'' empty_pool)) =
     persisted empty_pool"
proof -
  have f: "fst (CreatePerson postgres_like (fresh_writer\<lparr>writable := False\<rparr>)
         (sample_request ''acme'' ''5'' (Object None (Some ''Grace'')))
         (provisioned postgres_like ''acme'' empty_pool)) \<noteq> None"
    by (simp add: CreatePerson_unwritable)
  have m: "working (snd (snd (CreatePerson postgres_like (fresh_writer\<lparr>writable := False\<rparr>)
         (sample_request ''acme'' ''5'' (Object None (Some ''Grace'')))
         (provisioned postgres_like ''acme'' empty_pool)))) ''acme'' =
     Some (Some [\<lparr>ID = 5, Name = ''Grace''\<rparr>])"
    by (simp add: CreatePerson_unwritable)
  from handler_failure_is_atomic [where h = "CreatePerson postgres_like"
      and w = "fresh_writer\<lparr>writable := False\<rparr>"
      and r = "sample_request ''acme'' ''5'' (Object None (Some ''Grace''))"
      and B = postgres_like and tenant = "''acme''" and pool = empty_pool, OF f] f m
  show ?thesis by blast
qed

section \<open>Provisioning twice\<close>

text \<open>
  Claim C9. Running the three provisioning calls a second time on the handle changes
  neither the schemas and tables, nor the selected schema, nor whether the transaction
  has failed; only the log of calls grows. The same holds across requests: after a
  committed transaction that provisioned a tenant, provisioning the tenant in the next
  transaction gives the state that the first one had.
\<close>

theorem provisioning_idempotent:
  "working (provision B tenant (provision B tenant db)) = working (provision B tenant db) \<and>
   search_path (provision B tenant (provision B tenant db)) =
     search_path (provision B tenant db) \<and>
   aborted (provision B tenant (provision B tenant db)) = aborted (provision B tenant db) \<and>
   working (provisioned B tenant (Commit (provisioned B tenant pool) pool)) =
     working (provisioned B tenant pool)"
proof (cases "ident B tenant")
  case None
  then show ?thesis
    by (simp add: provision_eq [of B tenant] provisioned_eq Commit_def Let_def)
next
  case (Some n)
  then show ?thesis
    by (simp add: provision_eq [of B tenant] provisioned_eq Commit_def Let_def
        split: option.splits)
qed

theorem provisioning_idempotent_witness:
  "working (provision postgres_like ''acme'' (Begin empty_pool)) = [''acme'' \<mapsto> Some []] \<and>
   working (provision postgres_like ''acme'' (provision postgres_like ''acme'' (Begin empty_pool))) =
     [''acme'' \<mapsto> Some []] \<and>
   search_path (provision postgres_like ''acme''
     (provision postgres_like ''acme'' (Begin empty_pool))) = Some ''acme'' \<and>
   \<not> aborted (provision postgres_like ''acme''
     (provision postgres_like ''acme'' (Begin empty_pool)))"
proof -
  have once: "provision postgres_like ''acme'' (Begin empty_pool) =
     \<lparr>working = [''acme'' \<mapsto> Some []], search_path = Some ''acme'', aborted = False,
      issued = [CBegin, CExec ''create schema if not exists acme'',
                CExec ''set search_path to acme'', CAutoMigrate]\<rparr>"
    using provisioned_acme by (simp add: provisioned_def)
  from provisioning_idempotent [of postgres_like "''acme''" "Begin empty_pool" empty_pool]
  show ?thesis by (simp add: once)
qed

section \<open>The id of the path\<close>



end
